theory Spec2Isabelle
  imports Main "HOL-Library.Word"
begin

section \<open>Data model (types.ts, constants.ts)\<close>

text \<open>
  The records and enumerations of \<^verbatim>\<open>types.ts\<close>. JavaScript strings are lists of
  characters; an optional field (\<^verbatim>\<open>field?: T\<close>) is an \<open>option\<close>. Several interfaces
  share field names; the later record owns the short name, the earlier one is written
  with its record name in front (\<open>Language.name\<close>, \<open>TranslationResponse.translatedText\<close>).
  The fields \<^verbatim>\<open>id\<close> and \<^verbatim>\<open>type\<close> of \<^verbatim>\<open>Message\<close> are \<open>msgId\<close> and \<open>mtype\<close> here, and a
  function parameter that has the name of a field carries a prime (\<open>sender'\<close>).
\<close>

record Language =
  code :: string
  name :: string
  flag :: string
  voiceName :: string

record UserProfile =
  name :: string
  primaryLanguage :: string
  conversationTypes :: "string list"
  tone :: "string list"
  bio :: string

text \<open>\<^verbatim>\<open>MessageType\<close> and the \<^verbatim>\<open>'user' | 'partner'\<close> union of \<^verbatim>\<open>Message.sender\<close>.\<close>

datatype MessageType = Text | Audio_live | Video_live | Audio_file | Video_file

datatype Sender = User | Partner

datatype AppState = IDLE | LISTENING | RECORDING | TRANSLATING | ERROR

datatype CommMode = TEXT | LIVE_AUDIO | LIVE_VIDEO | REC_AUDIO | REC_VIDEO

datatype OutputPreference = TRANSLATED | ORIGINAL

text \<open>A \<^verbatim>\<open>Uint8Array\<close>, and a \<^verbatim>\<open>Blob\<close> as its parts and its MIME type.\<close>

type_synonym bytes = "8 word list"

record Blob =
  parts :: "bytes list"
  mimeType :: string

record TranslationResponse =
  translatedText :: string
  suggestedResponses :: "string list"
  detectedEmotion :: "string option"

record Message =
  msgId :: string
  mtype :: MessageType
  originalText :: string
  translatedText :: string
  originalLang :: string
  targetLang :: string
  sender :: Sender
  timestamp :: nat
  suggestedResponses :: "string list option"
  isAutoReply :: "bool option"
  detectedEmotion :: "string option"
  originalAudioBlob :: "Blob option"
  translatedAudioBuffer :: "bytes option"
  videoBlob :: "Blob option"

text \<open>
  \<^verbatim>\<open>SUPPORTED_LANGUAGES\<close> of \<^verbatim>\<open>constants.ts\<close>. A flag glyph is a pair of regional
  indicator symbols; it is written here as the two letters they stand for.
\<close>

definition SUPPORTED_LANGUAGES :: "Language list" where
  "SUPPORTED_LANGUAGES =
    [\<lparr>code = ''en-US'', Language.name = ''English'', flag = ''US'', voiceName = ''Puck''\<rparr>,
     \<lparr>code = ''es-ES'', Language.name = ''Spanish'', flag = ''ES'', voiceName = ''Kore''\<rparr>,
     \<lparr>code = ''fr-FR'', Language.name = ''French'', flag = ''FR'', voiceName = ''Charon''\<rparr>,
     \<lparr>code = ''de-DE'', Language.name = ''German'', flag = ''DE'', voiceName = ''Fenrir''\<rparr>,
     \<lparr>code = ''it-IT'', Language.name = ''Italian'', flag = ''IT'', voiceName = ''Zephyr''\<rparr>,
     \<lparr>code = ''ja-JP'', Language.name = ''Japanese'', flag = ''JP'', voiceName = ''Kore''\<rparr>,
     \<lparr>code = ''ko-KR'', Language.name = ''Korean'', flag = ''KR'', voiceName = ''Puck''\<rparr>,
     \<lparr>code = ''zh-CN'', Language.name = ''Chinese'', flag = ''CN'', voiceName = ''Charon''\<rparr>,
     \<lparr>code = ''pt-BR'', Language.name = ''Portuguese'', flag = ''BR'', voiceName = ''Fenrir''\<rparr>,
     \<lparr>code = ''hi-IN'', Language.name = ''Hindi'', flag = ''IN'', voiceName = ''Zephyr''\<rparr>]"

section \<open>The platform and the hosted model\<close>

text \<open>
  Everything outside the repository is an input of the model: a call either throws (a
  rejected promise, an exception) or returns a value.
\<close>

datatype 'a outcome = Throws | Returns 'a

datatype error = GatewayFailure | NoTranslationReturned | NoAudioData | DecodeFailure

text \<open>
  What \<^verbatim>\<open>translateContent\<close> and \<^verbatim>\<open>generateAvatarReply\<close> send: the ingredients of
  the prompt (the prompt text itself is a template over them). The history is sent as
  \<^verbatim>\<open>sender: originalText\<close> lines.
\<close>

record TranslateRequest =
  req_text :: string
  req_source :: string
  req_target :: string
  req_profile :: "UserProfile option"
  req_history :: "(Sender \<times> string) list"
  req_image :: "string option"

record AvatarRequest =
  av_incoming :: string
  av_profile :: UserProfile
  av_history :: "(Sender \<times> string) list"

text \<open>
  The world of one \<^verbatim>\<open>processInput\<close> invocation:
  \<^item> \<open>generateContent_*\<close>: \<^verbatim>\<open>ai.models.generateContent\<close> for the three requests; the
    value returned is \<^verbatim>\<open>response.text\<close> (for speech, the base64 audio of the first
    candidate), absent when the response has none;
  \<^item> \<open>JSON_parse_translation\<close>: \<^verbatim>\<open>JSON.parse(result) as TranslationResponse\<close>;
  \<^item> \<open>JSON_parse_reply\<close>: \<^verbatim>\<open>JSON.parse(...)\<close> followed by the read of \<^verbatim>\<open>.replyText\<close>;
  \<^item> \<open>decodeBase64\<close> of \<^verbatim>\<open>utils/audioUtils\<close>, which throws on text that is not base64;
  \<^item> \<open>audioPlays\<close>: whether decoding and starting the audio in \<^verbatim>\<open>playAudio\<close> goes through;
  \<^item> \<open>videoFrame\<close>: what \<^verbatim>\<open>videoRef.current && captureVideoFrame()\<close> yields, absent
    when there is no video element or no frame to draw;
  \<^item> \<open>Date_now_id\<close>, \<open>Date_now_timestamp\<close>: the two reads of \<^verbatim>\<open>Date.now()\<close>.
\<close>

record World =
  generateContent_translate :: "TranslateRequest \<Rightarrow> string option outcome"
  generateContent_speech :: "string \<Rightarrow> string \<Rightarrow> string option outcome"
  generateContent_avatar :: "AvatarRequest \<Rightarrow> string option outcome"
  JSON_parse_translation :: "string \<Rightarrow> TranslationResponse outcome"
  JSON_parse_reply :: "string \<Rightarrow> string option outcome"
  decodeBase64 :: "string \<Rightarrow> bytes outcome"
  audioPlays :: "bytes \<Rightarrow> bool"
  videoFrame :: "string option"
  Date_now_id :: nat
  Date_now_timestamp :: nat

section \<open>services/geminiService.ts\<close>

text \<open>\<^verbatim>\<open>history.slice(-n).map(m => `${m.sender ...}: ${m.originalText}`)\<close>.\<close>

definition recentTurns :: "nat \<Rightarrow> Message list \<Rightarrow> (Sender \<times> string) list" where
  "recentTurns n history =
     map (\<lambda>m. (sender m, originalText m)) (drop (length history - n) history)"

text \<open>\<^verbatim>\<open>a || b\<close> on an optional string: \<^verbatim>\<open>undefined\<close> and \<^verbatim>\<open>""\<close> are falsy.\<close>

definition js_or :: "string option \<Rightarrow> string \<Rightarrow> string" where
  "js_or a b = (case a of None \<Rightarrow> b | Some s \<Rightarrow> if s = [] then b else s)"

text \<open>
  The fallback of \<^verbatim>\<open>translateContent\<close> when \<^verbatim>\<open>JSON.parse\<close> throws:
  \<^verbatim>\<open>result.replace(/[{}]/g, '').slice(0, 100) + "..."\<close>, \<^verbatim>\<open>"Neutral"\<close> and three fixed
  replies.
\<close>

definition fallbackResponse :: "string \<Rightarrow> TranslationResponse" where
  "fallbackResponse result =
     \<lparr>TranslationResponse.translatedText =
        take 100 (filter (\<lambda>c. c \<noteq> CHR ''{'' \<and> c \<noteq> CHR ''}'') result) @ ''...'',
      TranslationResponse.suggestedResponses =
        [''Could you repeat that?'', ''I understand.'', ''Thank you.''],
      TranslationResponse.detectedEmotion = Some ''Neutral''\<rparr>"

text \<open>The request \<^verbatim>\<open>translateContent\<close> sends; the history is cut to its last three turns.\<close>

definition translateRequest ::
  "string \<Rightarrow> Language \<Rightarrow> Language \<Rightarrow> UserProfile option \<Rightarrow> Message list \<Rightarrow> string option \<Rightarrow>
   TranslateRequest" where
  "translateRequest text sourceLang targetLang' userProfile history imageContext =
     \<lparr>req_text = text, req_source = Language.name sourceLang,
      req_target = Language.name targetLang', req_profile = userProfile,
      req_history = recentTurns 3 history, req_image = imageContext\<rparr>"

definition translateContent ::
  "World \<Rightarrow> string \<Rightarrow> Language \<Rightarrow> Language \<Rightarrow> UserProfile option \<Rightarrow> Message list \<Rightarrow>
   string option \<Rightarrow> error + TranslationResponse" where
  "translateContent w text sourceLang targetLang' userProfile history imageContext =
     (case generateContent_translate w
             (translateRequest text sourceLang targetLang' userProfile history imageContext) of
        Throws \<Rightarrow> Inl GatewayFailure
      | Returns response_text \<Rightarrow>
          (case response_text of
             None \<Rightarrow> Inl NoTranslationReturned
           | Some result \<Rightarrow>
               if result = [] then Inl NoTranslationReturned
               else (case JSON_parse_translation w result of
                       Returns parsed \<Rightarrow> Inr parsed
                     | Throws \<Rightarrow> Inr (fallbackResponse result))))"

definition generateSpeech :: "World \<Rightarrow> string \<Rightarrow> string \<Rightarrow> error + bytes" where
  "generateSpeech w text voice =
     (case generateContent_speech w text voice of
        Throws \<Rightarrow> Inl GatewayFailure
      | Returns base64Audio \<Rightarrow>
          (case base64Audio of
             None \<Rightarrow> Inl NoAudioData
           | Some b \<Rightarrow>
               if b = [] then Inl NoAudioData
               else (case decodeBase64 w b of
                       Throws \<Rightarrow> Inl DecodeFailure
                     | Returns audio \<Rightarrow> Inr audio)))"

definition generateAvatarReply ::
  "World \<Rightarrow> string \<Rightarrow> UserProfile \<Rightarrow> Message list \<Rightarrow> error + string" where
  "generateAvatarReply w incomingText userProfile history =
     (case generateContent_avatar w
             \<lparr>av_incoming = incomingText, av_profile = userProfile,
              av_history = recentTurns 5 history\<rparr> of
        Throws \<Rightarrow> Inl GatewayFailure
      | Returns response_text \<Rightarrow>
          (case JSON_parse_reply w (js_or response_text ''{}'') of
             Returns replyText \<Rightarrow> Inr (js_or replyText ''I am currently unavailable.'')
           | Throws \<Rightarrow> Inr (js_or response_text ''I am currently unavailable.'')))"

section \<open>App.tsx: the session state\<close>

text \<open>
  What a timer started with \<^verbatim>\<open>setTimeout\<close> does when it fires:
  \<^item> \<open>ClearError\<close>: the callback of \<^verbatim>\<open>handleError\<close>;
  \<^item> \<open>CallProcessInput\<close>: a call of \<^verbatim>\<open>processInput\<close> with the arguments fixed when the
    timer was started (the auto-reply);
  \<^item> \<open>SendRecording\<close>: the callback of \<^verbatim>\<open>stopMediaRecording\<close>, which reads
    \<^verbatim>\<open>chunksRef.current\<close> when it fires; its arguments are the MIME type, the text,
    the two languages, the sender and the message type.
\<close>

datatype action =
    ClearError
  | CallProcessInput string Language Language Sender MessageType "Blob option" bool
  | SendRecording string string Language Language Sender MessageType

text \<open>
  The \<^verbatim>\<open>useState\<close> variables and refs of the \<^verbatim>\<open>App\<close> component that the orchestration
  reads or writes, and the pending timers (delay in milliseconds, action).
  \<open>mediaRecorderRef\<close> says whether \<^verbatim>\<open>mediaRecorderRef.current\<close> is set.
\<close>

record App =
  langA :: Language
  langB :: Language
  messages :: "Message list"
  appState :: AppState
  commMode :: CommMode
  preference :: OutputPreference
  errorMsg :: "string option"
  userProfile :: "UserProfile option"
  showProfileSetup :: bool
  isAiResponderActive :: bool
  smartReplies :: "string list"
  recordingWho :: "Sender option"
  interimText :: string
  textInput :: string
  isMediaRecording :: bool
  mediaRecorderRef :: bool
  chunksRef :: "bytes list"
  timers :: "(nat \<times> action) list"

section \<open>App.tsx: loading the profile\<close>

text \<open>
  The value \<^verbatim>\<open>JSON.parse(savedProfile)\<close> yields: a profile whose \<^verbatim>\<open>tone\<close> is either a
  string (the legacy shape) or an array of strings.
\<close>

datatype tone_field = ToneString string | ToneArray "string list"

record StoredProfile =
  sp_name :: string
  sp_primaryLanguage :: string
  sp_conversationTypes :: "string list"
  sp_tone :: tone_field
  sp_bio :: string

text \<open>\<^verbatim>\<open>if (typeof parsed.tone === 'string') parsed.tone = [parsed.tone]\<close>.\<close>

definition migrateTone :: "StoredProfile \<Rightarrow> UserProfile" where
  "migrateTone parsed =
     \<lparr>name = sp_name parsed, primaryLanguage = sp_primaryLanguage parsed,
      conversationTypes = sp_conversationTypes parsed,
      tone = (case sp_tone parsed of ToneString t \<Rightarrow> [t] | ToneArray ts \<Rightarrow> ts),
      bio = sp_bio parsed\<rparr>"

text \<open>
  The mount effect. \<open>JSON_parse\<close> is \<^verbatim>\<open>JSON.parse\<close> on the stored item and
  \<open>savedProfile\<close> is \<^verbatim>\<open>localStorage.getItem('omniTalk_userProfile')\<close>.
\<close>

definition loadProfile ::
  "(string \<Rightarrow> StoredProfile outcome) \<Rightarrow> string option \<Rightarrow> App \<Rightarrow> App" where
  "loadProfile JSON_parse savedProfile s =
     (case savedProfile of
        None \<Rightarrow> s\<lparr>showProfileSetup := True\<rparr>
      | Some item \<Rightarrow>
          if item = [] then s\<lparr>showProfileSetup := True\<rparr>
          else (case JSON_parse item of
                  Throws \<Rightarrow> s\<lparr>showProfileSetup := True\<rparr>
                | Returns parsed \<Rightarrow>
                    (let s1 = s\<lparr>userProfile := Some (migrateTone parsed)\<rparr>
                     in case find (\<lambda>l. code l = sp_primaryLanguage parsed) SUPPORTED_LANGUAGES of
                          Some userLang \<Rightarrow> s1\<lparr>langA := userLang\<rparr>
                        | None \<Rightarrow> s1)))"

section \<open>App.tsx: the orchestrator\<close>

definition handleError :: "string \<Rightarrow> App \<Rightarrow> App" where
  "handleError msg s =
     s\<lparr>errorMsg := Some msg, appState := ERROR, timers := timers s @ [(4000, ClearError)]\<rparr>"

definition playAudio :: "World \<Rightarrow> bytes \<Rightarrow> App \<Rightarrow> App" where
  "playAudio w audioData s =
     (if audioPlays w audioData then s else handleError ''Could not play audio.'' s)"

text \<open>\<^verbatim>\<open>Date.now().toString()\<close>: the decimal digits of a number.\<close>

fun toString :: "nat \<Rightarrow> string" where
  "toString n =
     (if n < 10 then [''0123456789'' ! n]
      else toString (n div 10) @ [''0123456789'' ! (n mod 10)])"

declare toString.simps [simp del]

text \<open>Step 3 of \<^verbatim>\<open>processInput\<close>: the message literal.\<close>

definition newMessage ::
  "World \<Rightarrow> string \<Rightarrow> Language \<Rightarrow> Language \<Rightarrow> Sender \<Rightarrow> MessageType \<Rightarrow> Blob option \<Rightarrow> bool \<Rightarrow>
   TranslationResponse \<Rightarrow> bytes option \<Rightarrow> Message" where
  "newMessage w text sourceLang targetLang' sender' type' mediaBlob isAutoReply'
      translationResult translatedAudioData =
     \<lparr>msgId = toString (Date_now_id w),
      mtype = type',
      originalText = text,
      translatedText = TranslationResponse.translatedText translationResult,
      originalLang = code sourceLang,
      targetLang = code targetLang',
      sender = sender',
      timestamp = Date_now_timestamp w,
      suggestedResponses = Some (TranslationResponse.suggestedResponses translationResult),
      isAutoReply = Some isAutoReply',
      detectedEmotion = TranslationResponse.detectedEmotion translationResult,
      originalAudioBlob = mediaBlob,
      translatedAudioBuffer = translatedAudioData,
      videoBlob = (if type' = Video_file \<or> type' = Video_live then mediaBlob else None)\<rparr>"

text \<open>
  The avatar logic inside the \<^verbatim>\<open>setMessages\<close> updater: when the sender is the partner,
  the responder is active and a profile is set, \<^verbatim>\<open>generateAvatarReply\<close> is called on the
  updated history; when it resolves, a timer of 1000 ms is started that calls
  \<^verbatim>\<open>processInput(aiReplyText, langA, langB, 'user', 'text', undefined, true)\<close>; when it
  rejects, the error is logged and nothing else happens.
\<close>

definition avatarLogic ::
  "World \<Rightarrow> string \<Rightarrow> Sender \<Rightarrow> Message list \<Rightarrow> App \<Rightarrow> (nat \<times> action) list" where
  "avatarLogic w text sender' updatedMessages s =
     (case userProfile s of
        None \<Rightarrow> []
      | Some profile \<Rightarrow>
          if sender' = Partner \<and> isAiResponderActive s
          then (case generateAvatarReply w text profile updatedMessages of
                  Inl err \<Rightarrow> []
                | Inr aiReplyText \<Rightarrow>
                    [(1000, CallProcessInput aiReplyText (langA s) (langB s) User Text None True)])
          else [])"

text \<open>
  The frame sent for facial analysis: taken only for the two video types
  (\<^verbatim>\<open>(type === 'video_live' || type === 'video_file') && videoRef.current\<close>).
\<close>

definition imageFrame :: "World \<Rightarrow> MessageType \<Rightarrow> string option" where
  "imageFrame w type' = (if type' = Video_live \<or> type' = Video_file then videoFrame w else None)"

text \<open>
  Step 2 of \<^verbatim>\<open>processInput\<close>: \<^verbatim>\<open>generateSpeech\<close> inside its own \<^verbatim>\<open>try\<close>; a failure is
  logged and leaves \<^verbatim>\<open>translatedAudioData\<close> undefined.
\<close>

definition trySpeech :: "World \<Rightarrow> TranslationResponse \<Rightarrow> Language \<Rightarrow> bytes option" where
  "trySpeech w translationResult targetLang' =
     (case generateSpeech w (TranslationResponse.translatedText translationResult)
             (voiceName targetLang') of
        Inl err \<Rightarrow> None
      | Inr audio \<Rightarrow> Some audio)"

text \<open>
  \<^verbatim>\<open>processInput\<close>, as one atomic step on the state. The state variables the function
  reads (\<^verbatim>\<open>userProfile\<close>, \<^verbatim>\<open>messages\<close>, \<^verbatim>\<open>isAiResponderActive\<close>, \<^verbatim>\<open>langA\<close>, \<^verbatim>\<open>langB\<close>,
  \<^verbatim>\<open>preference\<close>) are read from the state the step starts in. The \<^verbatim>\<open>catch\<close> branch is
  reached only from \<^verbatim>\<open>translateContent\<close>: \<^verbatim>\<open>generateSpeech\<close> has its own \<^verbatim>\<open>try\<close>,
  \<^verbatim>\<open>playAudio\<close> catches its own errors, and the avatar promise has its own \<^verbatim>\<open>catch\<close>.
  The timer the avatar promise starts when it resolves is entered in the same step.
\<close>

definition processInput ::
  "World \<Rightarrow> string \<Rightarrow> Language \<Rightarrow> Language \<Rightarrow> Sender \<Rightarrow> MessageType \<Rightarrow> Blob option \<Rightarrow> bool \<Rightarrow>
   App \<Rightarrow> App" where
  "processInput w text sourceLang targetLang' sender' type' mediaBlob isAutoReply' s =
     (let s1 = s\<lparr>appState := TRANSLATING, interimText := []\<rparr>;
          s2 = (if sender' = User then s1\<lparr>smartReplies := []\<rparr> else s1)
      in case translateContent w text sourceLang targetLang' (userProfile s) (messages s)
                (imageFrame w type') of
           Inl err \<Rightarrow>
             (handleError ''Processing failed. Please try again.'' s2)\<lparr>appState := IDLE\<rparr>
         | Inr translationResult \<Rightarrow>
             (let s3 = (if sender' = Partner
                        then s2\<lparr>smartReplies :=
                                  TranslationResponse.suggestedResponses translationResult\<rparr>
                        else s2);
                  translatedAudioData = trySpeech w translationResult targetLang';
                  updatedMessages =
                    messages s3 @
                    [newMessage w text sourceLang targetLang' sender' type' mediaBlob
                       isAutoReply' translationResult translatedAudioData];
                  s4 = s3\<lparr>messages := updatedMessages,
                          timers := timers s3 @ avatarLogic w text sender' updatedMessages s\<rparr>;
                  s5 = s4\<lparr>appState := IDLE\<rparr>
              in case translatedAudioData of
                   None \<Rightarrow> s5
                 | Some audio \<Rightarrow>
                     if preference s = TRANSLATED then playAudio w audio s5 else s5))"

text \<open>
  \<^verbatim>\<open>stopMediaRecording\<close>: the values the timer callback uses (\<^verbatim>\<open>commMode\<close>,
  \<^verbatim>\<open>interimText\<close>, \<^verbatim>\<open>recordingWho\<close>, \<^verbatim>\<open>langA\<close>, \<^verbatim>\<open>langB\<close>) are those of the call.
\<close>

definition stopMediaRecording :: "App \<Rightarrow> App" where
  "stopMediaRecording s =
     (if mediaRecorderRef s \<and> isMediaRecording s
      then (let mime = (if commMode s = REC_VIDEO then ''video/webm'' else ''audio/webm'');
                finalSafeText = js_or (Some (interimText s)) ''(Audio Content)'';
                sender' = (case recordingWho s of None \<Rightarrow> User | Some who \<Rightarrow> who)
            in s\<lparr>isMediaRecording := False, recordingWho := None, appState := IDLE,
                 timers := timers s @
                   [(500, SendRecording mime finalSafeText
                            (if sender' = User then langA s else langB s)
                            (if sender' = User then langB s else langA s)
                            sender'
                            (if commMode s = REC_VIDEO then Video_file else Audio_file))]\<rparr>)
      else s)"

text \<open>A pending timer fires: its callback runs and the timer is gone.\<close>

fun run_action :: "World \<Rightarrow> action \<Rightarrow> App \<Rightarrow> App" where
  "run_action w ClearError s = s\<lparr>errorMsg := None, appState := IDLE\<rparr>"
| "run_action w (CallProcessInput text sourceLang targetLang' sender' type' mediaBlob auto) s =
     processInput w text sourceLang targetLang' sender' type' mediaBlob auto s"
| "run_action w (SendRecording mime text sourceLang targetLang' sender' type') s =
     processInput w text sourceLang targetLang' sender' type'
       (Some \<lparr>parts = chunksRef s, mimeType = mime\<rparr>) False s"

definition fire :: "World \<Rightarrow> nat \<Rightarrow> App \<Rightarrow> App" where
  "fire w i s =
     (if i < length (timers s)
      then run_action w (snd (timers s ! i))
             (s\<lparr>timers := take i (timers s) @ drop (Suc i) (timers s)\<rparr>)
      else s)"

text \<open>
  A sequence of \<^verbatim>\<open>processInput\<close> invocations, each in its own world, run one after the
  other; \<open>commits\<close> says whether an invocation gets a translation in the state it starts
  in, and \<open>commitCount\<close> counts the invocations of a run that do.
\<close>

datatype invocation =
  Invocation World string Language Language Sender MessageType "Blob option" bool

fun invoke :: "invocation \<Rightarrow> App \<Rightarrow> App" where
  "invoke (Invocation w text sourceLang targetLang' sender' type' mediaBlob auto) s =
     processInput w text sourceLang targetLang' sender' type' mediaBlob auto s"

fun commits :: "invocation \<Rightarrow> App \<Rightarrow> bool" where
  "commits (Invocation w text sourceLang targetLang' sender' type' mediaBlob auto) s =
     (case translateContent w text sourceLang targetLang' (userProfile s) (messages s)
             (imageFrame w type') of
        Inl err \<Rightarrow> False
      | Inr translationResult \<Rightarrow> True)"

fun processInputs :: "invocation list \<Rightarrow> App \<Rightarrow> App" where
  "processInputs [] s = s"
| "processInputs (c # cs) s = processInputs cs (invoke c s)"

fun commitCount :: "invocation list \<Rightarrow> App \<Rightarrow> nat" where
  "commitCount [] s = 0"
| "commitCount (c # cs) s = (if commits c s then 1 else 0) + commitCount cs (invoke c s)"

text \<open>
  The \<^verbatim>\<open>processInput\<close> calls scheduled between two states: the timers added to the end of
  the list that call \<^verbatim>\<open>processInput\<close> when they fire.
\<close>

fun isCall :: "action \<Rightarrow> bool" where
  "isCall ClearError = False"
| "isCall (CallProcessInput text sourceLang targetLang' sender' type' mediaBlob auto) = True"
| "isCall (SendRecording mime text sourceLang targetLang' sender' type') = True"

definition newCalls :: "App \<Rightarrow> App \<Rightarrow> (nat \<times> action) list" where
  "newCalls s s' = filter (\<lambda>t. isCall (snd t)) (drop (length (timers s)) (timers s'))"

section \<open>Example sessions\<close>

text \<open>The state of a freshly mounted component (the initial values of \<^verbatim>\<open>useState\<close>).\<close>

definition english :: Language where
  "english = \<lparr>code = ''en-US'', Language.name = ''English'', flag = ''US'', voiceName = ''Puck''\<rparr>"

definition spanish :: Language where
  "spanish = \<lparr>code = ''es-ES'', Language.name = ''Spanish'', flag = ''ES'', voiceName = ''Kore''\<rparr>"



definition initialApp :: App where
  "initialApp =
     \<lparr>langA = english, langB = spanish, messages = [], appState = IDLE,
      commMode = LIVE_AUDIO, preference = TRANSLATED, errorMsg = None, userProfile = None,
      showProfileSetup = False, isAiResponderActive = False, smartReplies = [],
      recordingWho = None, interimText = [], textInput = [], isMediaRecording = False,
      mediaRecorderRef = False, chunksRef = [], timers = []\<rparr>"

definition alex :: UserProfile where
  "alex = \<lparr>name = ''Alex'', primaryLanguage = ''en-US'', conversationTypes = [''Travel''],
           tone = [''Formal''], bio = ''I am a medical student traveling to Spain''\<rparr>"

text \<open>A session with a profile and the responder switched on.\<close>

definition avatarApp :: App where
  "avatarApp = initialApp\<lparr>userProfile := Some alex, isAiResponderActive := True\<rparr>"

definition holaResponse :: TranslationResponse where
  "holaResponse =
     \<lparr>TranslationResponse.translatedText = ''Hola'',
      TranslationResponse.suggestedResponses = [''Hola'', ''Buenos dias'', ''Gracias''],
      TranslationResponse.detectedEmotion = Some ''Neutral''\<rparr>"

text \<open>A gateway answer with two suggestions instead of three.\<close>

definition twoSuggestions :: TranslationResponse where
  "twoSuggestions =
     \<lparr>TranslationResponse.translatedText = ''Where is the station?'',
      TranslationResponse.suggestedResponses = [''Over there.'', ''I do not know.''],
      TranslationResponse.detectedEmotion = Some ''Neutral''\<rparr>"

text \<open>A world in which every service answers and every answer parses.\<close>

definition goodWorld :: World where
  "goodWorld =
     \<lparr>generateContent_translate = (\<lambda>req. Returns (Some ''{translatedText: Hola}'')),
      generateContent_speech = (\<lambda>text voice. Returns (Some ''UklGRg'')),
      generateContent_avatar = (\<lambda>req. Returns (Some ''{replyText: At the corner}'')),
      JSON_parse_translation = (\<lambda>body. Returns holaResponse),
      JSON_parse_reply = (\<lambda>body. Returns (Some ''At the corner, two blocks north.'')),
      decodeBase64 = (\<lambda>b. Returns [82, 73, 70, 70]),
      audioPlays = (\<lambda>audio. True),
      videoFrame = None,
      Date_now_id = 1700000000000,
      Date_now_timestamp = 1700000000001\<rparr>"

text \<open>Variants: the translation call throws; the body is empty; the body is not JSON;
  speech synthesis throws; the avatar call throws; the gateway sends two suggestions.\<close>

definition gatewayDown :: World where
  "gatewayDown = goodWorld\<lparr>generateContent_translate := (\<lambda>req. Throws)\<rparr>"

definition emptyBody :: World where
  "emptyBody = goodWorld\<lparr>generateContent_translate := (\<lambda>req. Returns (Some [])),
                          JSON_parse_translation := (\<lambda>body. Throws)\<rparr>"

definition brokenJson :: World where
  "brokenJson = goodWorld\<lparr>generateContent_translate := (\<lambda>req. Returns (Some ''{translatedText: Hol'')),
                           JSON_parse_translation := (\<lambda>body. Throws)\<rparr>"

definition speechDown :: World where
  "speechDown = goodWorld\<lparr>generateContent_speech := (\<lambda>text voice. Throws)\<rparr>"

definition avatarDown :: World where
  "avatarDown = goodWorld\<lparr>generateContent_avatar := (\<lambda>req. Throws)\<rparr>"

definition shortList :: World where
  "shortList = goodWorld\<lparr>JSON_parse_translation := (\<lambda>body. Returns twoSuggestions)\<rparr>"

text \<open>A recording of the partner in progress, with no transcript so far.\<close>

definition recordingApp :: App where
  "recordingApp =
     initialApp\<lparr>commMode := REC_AUDIO, appState := RECORDING, recordingWho := Some Partner,
                isMediaRecording := True, mediaRecorderRef := True, chunksRef := [[26, 69]]\<rparr>"

text \<open>A stored profile of the legacy shape.\<close>

definition legacyProfile :: StoredProfile where
  "legacyProfile =
     \<lparr>sp_name = ''Alex'', sp_primaryLanguage = ''es-ES'', sp_conversationTypes = [''Travel''],
      sp_tone = ToneString ''Formal'', sp_bio = []\<rparr>"

section \<open>Properties of the translation gateway client\<close>

lemma translateContent_fallback:
  assumes "generateContent_translate w
             (translateRequest text sourceLang targetLang' profile history imageContext)
           = Returns (Some result)"
    and "result \<noteq> []"
    and "JSON_parse_translation w result = Throws"
  shows "translateContent w text sourceLang targetLang' profile history imageContext
         = Inr (fallbackResponse result)"
  using assms by (simp add: translateContent_def)

lemma translateContent_gateway_throws:
  assumes "generateContent_translate w
             (translateRequest text sourceLang targetLang' profile history imageContext) = Throws"
  shows "translateContent w text sourceLang targetLang' profile history imageContext
         = Inl GatewayFailure"
  using assms by (simp add: translateContent_def)

lemma translateContent_raises_iff:
  "(\<exists>err. translateContent w text sourceLang targetLang' profile history imageContext = Inl err)
   \<longleftrightarrow>
   generateContent_translate w
     (translateRequest text sourceLang targetLang' profile history imageContext)
     \<in> {Throws, Returns None, Returns (Some [])}"
  by (simp add: translateContent_def split: outcome.split option.split)

lemma fallbackResponse_text_length:
  "length (TranslationResponse.translatedText (fallbackResponse result)) \<le> 103"
  by (simp add: fallbackResponse_def)

section \<open>Properties of the orchestrator\<close>

subsection \<open>What one invocation does to each state variable\<close>

lemma processInput_messages:
  "messages (processInput w text sourceLang targetLang' sender' type' mediaBlob auto s) =
     (case translateContent w text sourceLang targetLang' (userProfile s) (messages s)
             (imageFrame w type') of
        Inl err \<Rightarrow> messages s
      | Inr translationResult \<Rightarrow>
          messages s @
          [newMessage w text sourceLang targetLang' sender' type' mediaBlob auto translationResult
             (trySpeech w translationResult targetLang')])"
  by (simp add: processInput_def Let_def playAudio_def handleError_def
           split: sum.split option.split)

lemma processInput_timers:
  "timers (processInput w text sourceLang targetLang' sender' type' mediaBlob auto s) =
     (case translateContent w text sourceLang targetLang' (userProfile s) (messages s)
             (imageFrame w type') of
        Inl err \<Rightarrow> timers s @ [(4000, ClearError)]
      | Inr tr \<Rightarrow>
          timers s @
          avatarLogic w text sender'
            (messages s @
             [newMessage w text sourceLang targetLang' sender' type' mediaBlob auto tr
                (trySpeech w tr targetLang')]) s @
          (case trySpeech w tr targetLang' of
             None \<Rightarrow> []
           | Some audio \<Rightarrow>
               if preference s = TRANSLATED \<and> \<not> audioPlays w audio
               then [(4000, ClearError)] else []))"
  by (simp add: processInput_def Let_def playAudio_def handleError_def
           split: sum.split option.split)

lemma processInput_smartReplies:
  "smartReplies (processInput w text sourceLang targetLang' sender' type' mediaBlob auto s) =
     (case translateContent w text sourceLang targetLang' (userProfile s) (messages s)
             (imageFrame w type') of
        Inl err \<Rightarrow> (if sender' = User then [] else smartReplies s)
      | Inr tr \<Rightarrow>
          (if sender' = User then [] else TranslationResponse.suggestedResponses tr))"
  by (cases sender')
     (simp_all add: processInput_def Let_def playAudio_def handleError_def
           split: sum.split option.split)

lemma processInput_appState:
  "appState (processInput w text sourceLang targetLang' sender' type' mediaBlob auto s) =
     (case translateContent w text sourceLang targetLang' (userProfile s) (messages s)
             (imageFrame w type') of
        Inl err \<Rightarrow> IDLE
      | Inr tr \<Rightarrow>
          (case trySpeech w tr targetLang' of
             None \<Rightarrow> IDLE
           | Some audio \<Rightarrow>
               if preference s = TRANSLATED \<and> \<not> audioPlays w audio then ERROR else IDLE))"
  by (simp add: processInput_def Let_def playAudio_def handleError_def
           split: sum.split option.split)

lemma processInput_errorMsg:
  "errorMsg (processInput w text sourceLang targetLang' sender' type' mediaBlob auto s) =
     (case translateContent w text sourceLang targetLang' (userProfile s) (messages s)
             (imageFrame w type') of
        Inl err \<Rightarrow> Some ''Processing failed. Please try again.''
      | Inr tr \<Rightarrow>
          (case trySpeech w tr targetLang' of
             None \<Rightarrow> errorMsg s
           | Some audio \<Rightarrow>
               if preference s = TRANSLATED \<and> \<not> audioPlays w audio
               then Some ''Could not play audio.'' else errorMsg s))"
  by (simp add: processInput_def Let_def playAudio_def handleError_def
           split: sum.split option.split)

lemma invoke_messages:
  "\<exists>ms. messages (invoke c s) = messages s @ ms \<and> length ms = (if commits c s then 1 else 0)"
  by (cases c) (simp add: processInput_messages split: sum.split)

lemma processInputs_messages:
  "\<exists>ms. messages (processInputs cs s) = messages s @ ms \<and> length ms = commitCount cs s"
proof (induction cs arbitrary: s)
  case Nil
  show ?case by simp
next
  case (Cons c cs)
  obtain ms1 where 1: "messages (invoke c s) = messages s @ ms1"
    and l1: "length ms1 = (if commits c s then 1 else 0)"
    using invoke_messages by blast
  obtain ms2 where 2: "messages (processInputs cs (invoke c s)) = messages (invoke c s) @ ms2"
    and l2: "length ms2 = commitCount cs (invoke c s)"
    using Cons.IH by blast
  have "messages (processInputs (c # cs) s) = messages s @ (ms1 @ ms2)"
    using 1 2 by simp
  moreover have "length (ms1 @ ms2) = commitCount (c # cs) s"
    using l1 l2 by simp
  ultimately show ?case by blast
qed

lemma newCalls_append:
  "timers s' = timers s @ ts \<Longrightarrow> newCalls s s' = filter (\<lambda>t. isCall (snd t)) ts"
  by (simp add: newCalls_def)


lemma avatarLogic_user: "avatarLogic w text User ms s = []"
  by (simp add: avatarLogic_def split: option.split)

lemma generateAvatarReply_fails_iff:
  "(\<exists>e. generateAvatarReply w text profile history = Inl e) \<longleftrightarrow>
   generateContent_avatar w
     \<lparr>av_incoming = text, av_profile = profile, av_history = recentTurns 5 history\<rparr> = Throws"
  by (simp add: generateAvatarReply_def split: outcome.split)

subsection \<open>The history\<close>

text \<open>
  Claim C1. The history is append-only. One invocation of \<^verbatim>\<open>processInput\<close> leaves the
  history as it is when \<^verbatim>\<open>translateContent\<close> fails, and otherwise puts the message it
  built at the end. Over any sequence of invocations, in any worlds, the history the
  sequence started with is a prefix of the history it ends with, entry for entry, and
  the length grows by the number of invocations that got a translation.
\<close>

theorem history_append_only:
  "messages (processInput w text sourceLang targetLang' sender' type' mediaBlob auto s) =
     (case translateContent w text sourceLang targetLang' (userProfile s) (messages s)
             (imageFrame w type') of
        Inl err \<Rightarrow> messages s
      | Inr translationResult \<Rightarrow>
          messages s @
          [newMessage w text sourceLang targetLang' sender' type' mediaBlob auto translationResult
             (trySpeech w translationResult targetLang')])
   \<and> take (length (messages s)) (messages (processInputs cs s)) = messages s
   \<and> length (messages (processInputs cs s)) = length (messages s) + commitCount cs s"
proof -
  obtain ms where "messages (processInputs cs s) = messages s @ ms" "length ms = commitCount cs s"
    using processInputs_messages by blast
  then show ?thesis by (simp add: processInput_messages)
qed

theorem history_append_only_witness:
  "messages (processInputs
      [Invocation goodWorld ''Hello'' english spanish User Text None False,
       Invocation gatewayDown ''How are you?'' english spanish User Text None False,
       Invocation goodWorld ''Good'' spanish english Partner Audio_live None False] initialApp)
   = [newMessage goodWorld ''Hello'' english spanish User Text None False holaResponse
        (Some [82, 73, 70, 70]),
      newMessage goodWorld ''Good'' spanish english Partner Audio_live None False holaResponse
        (Some [82, 73, 70, 70])]
   \<and> commitCount
      [Invocation goodWorld ''Hello'' english spanish User Text None False,
       Invocation gatewayDown ''How are you?'' english spanish User Text None False,
       Invocation goodWorld ''Good'' spanish english Partner Audio_live None False] initialApp = 2"
proof -
  have t1: "\<And>t a b p h i. translateContent goodWorld t a b p h i = Inr holaResponse"
    by (simp add: translateContent_def goodWorld_def)
  have t2: "\<And>t a b p h i. translateContent gatewayDown t a b p h i = Inl GatewayFailure"
    by (simp add: translateContent_def gatewayDown_def goodWorld_def)
  have sp: "\<And>tr l. trySpeech goodWorld tr l = Some [82, 73, 70, 70]"
    by (simp add: trySpeech_def generateSpeech_def goodWorld_def)
  note h = history_append_only
  show ?thesis
    using h[of goodWorld "''Hello''" english spanish User Text None False initialApp "[]"]
    by (simp add: h t1 t2 sp initialApp_def)
qed

subsection \<open>Timers and the example worlds\<close>

lemma translateContent_goodWorld: "translateContent goodWorld t a b p h i = Inr holaResponse"
  by (simp add: translateContent_def goodWorld_def)


lemma trySpeech_goodWorld: "trySpeech goodWorld tr l = Some [82, 73, 70, 70]"
  by (simp add: trySpeech_def generateSpeech_def goodWorld_def)


lemma avatarLogic_cases:
  "avatarLogic w text sender' ms s = [] \<or>
   (\<exists>reply. avatarLogic w text sender' ms s =
      [(1000, CallProcessInput reply (langA s) (langB s) User Text None True)])"
  unfolding avatarLogic_def
  apply (cases "userProfile s")
   apply simp
  subgoal for p
    apply (cases "generateAvatarReply w text p ms")
     apply simp_all
    done
  done

lemma avatarLogic_no_ClearError:
  "filter (\<lambda>t. snd t = ClearError) (avatarLogic w text sender' ms s) = []"
  using avatarLogic_cases[of w "text" sender' ms s] by auto

subsection \<open>A failed translation\<close>



subsection \<open>A failed speech synthesis\<close>

text \<open>
  Claim C6. When the translation succeeds and \<^verbatim>\<open>generateSpeech\<close> fails, the message is
  still appended, with the original and the translated text and no synthesized audio;
  the phase ends at \<open>IDLE\<close>, the error message is what it was before the call, and no
  error timer is started.
\<close>

theorem synthesis_failure_still_commits:
  assumes "translateContent w text sourceLang targetLang' (userProfile s) (messages s)
             (imageFrame w type') = Inr tr"
    and "generateSpeech w (TranslationResponse.translatedText tr) (voiceName targetLang') = Inl err"
    and "s' = processInput w text sourceLang targetLang' sender' type' mediaBlob auto s"
  shows "(\<exists>m. messages s' = messages s @ [m] \<and> originalText m = text
              \<and> translatedText m = TranslationResponse.translatedText tr
              \<and> translatedAudioBuffer m = None)
       \<and> appState s' = IDLE
       \<and> errorMsg s' = errorMsg s
       \<and> filter (\<lambda>t. snd t = ClearError) (drop (length (timers s)) (timers s')) = []"
proof -
  have sp: "trySpeech w tr targetLang' = None"
    using assms(2) by (simp add: trySpeech_def)
  have m: "messages s' = messages s @
             [newMessage w text sourceLang targetLang' sender' type' mediaBlob auto tr None]"
    using assms(1,3) sp by (simp add: processInput_messages)
  have a: "appState s' = IDLE" using assms(1,3) sp by (simp add: processInput_appState)
  have e: "errorMsg s' = errorMsg s" using assms(1,3) sp by (simp add: processInput_errorMsg)
  have t: "filter (\<lambda>t. snd t = ClearError) (drop (length (timers s)) (timers s')) = []"
    using assms(1,3) sp
    by (simp add: processInput_timers avatarLogic_no_ClearError)
  show ?thesis using m a e t by (simp add: newMessage_def)
qed

theorem synthesis_failure_still_commits_witness:
  "translateContent speechDown ''Hello'' english spanish (userProfile initialApp)
     (messages initialApp) (imageFrame speechDown Text) = Inr holaResponse
   \<and> generateSpeech speechDown (TranslationResponse.translatedText holaResponse)
       (voiceName spanish) = Inl GatewayFailure
   \<and> (\<exists>m. messages (processInput speechDown ''Hello'' english spanish User Text None False
                       initialApp) = [m]
          \<and> originalText m = ''Hello'' \<and> translatedText m = ''Hola''
          \<and> translatedAudioBuffer m = None)
   \<and> appState (processInput speechDown ''Hello'' english spanish User Text None False initialApp)
       = IDLE
   \<and> errorMsg (processInput speechDown ''Hello'' english spanish User Text None False initialApp)
       = None"
proof -
  have h1: "translateContent speechDown ''Hello'' english spanish (userProfile initialApp)
     (messages initialApp) (imageFrame speechDown Text) = Inr holaResponse"
    by (simp add: translateContent_def speechDown_def goodWorld_def)
  have h2: "generateSpeech speechDown (TranslationResponse.translatedText holaResponse)
       (voiceName spanish) = Inl GatewayFailure"
    by (simp add: generateSpeech_def speechDown_def goodWorld_def)
  show ?thesis
    using h1 h2 synthesis_failure_still_commits[OF h1 h2 refl, of User None False]
    by (simp add: initialApp_def holaResponse_def)
qed

subsection \<open>The responder switched off\<close>



subsection \<open>The suggestions stored in a message\<close>



subsection \<open>More facts about the example worlds\<close>

lemma translateContent_shortList: "translateContent shortList t a b p h i = Inr twoSuggestions"
  by (simp add: translateContent_def shortList_def goodWorld_def)


lemma trySpeech_avatarDown: "trySpeech avatarDown tr l = Some [82, 73, 70, 70]"
  by (simp add: trySpeech_def generateSpeech_def avatarDown_def goodWorld_def)

lemma generateAvatarReply_goodWorld:
  "generateAvatarReply goodWorld t p h = Inr ''At the corner, two blocks north.''"
  by (simp add: generateAvatarReply_def goodWorld_def js_or_def)


lemma audioPlays_goodWorld: "audioPlays goodWorld a" "audioPlays avatarDown a"
  by (simp_all add: goodWorld_def avatarDown_def)


lemma user_turn_schedules_no_call:
  "newCalls s (processInput w text sourceLang targetLang' User type' mediaBlob auto s) = []"
  by (simp add: newCalls_def processInput_timers avatarLogic_user
           split: sum.split option.split)

subsection \<open>The auto-reply\<close>




subsection \<open>The quick-reply suggestions\<close>

text \<open>
  Claim C4, as the code has it. After an invocation whose translation succeeds, the
  suggestion list is the list the translation returned when the sender is the partner
  (however many entries it has), and is empty when the sender is the local user: the
  list is cleared at the start of a local turn and not filled from its translation.
\<close>

theorem suggestions_after_translation:
  assumes "translateContent w text sourceLang targetLang' (userProfile s) (messages s)
             (imageFrame w type') = Inr tr"
  shows "smartReplies (processInput w text sourceLang targetLang' sender' type' mediaBlob auto s) =
           (if sender' = Partner then TranslationResponse.suggestedResponses tr else [])"
  using assms by (cases sender') (simp_all add: processInput_smartReplies)

theorem suggestions_after_translation_witness:
  "translateContent goodWorld ''Donde esta la estacion?'' spanish english (userProfile initialApp)
     (messages initialApp) (imageFrame goodWorld Audio_live) = Inr holaResponse
   \<and> smartReplies (processInput goodWorld ''Donde esta la estacion?'' spanish english Partner
        Audio_live None False initialApp) = [''Hola'', ''Buenos dias'', ''Gracias'']"
proof -
  have h: "translateContent goodWorld ''Donde esta la estacion?'' spanish english
     (userProfile initialApp) (messages initialApp) (imageFrame goodWorld Audio_live)
     = Inr holaResponse"
    by (rule translateContent_goodWorld)
  show ?thesis
    using h suggestions_after_translation[OF h, of Partner None False]
    by (simp add: holaResponse_def)
qed

text \<open>
  Claim C4 as stated fails twice. A local turn empties a list of three pending
  suggestions, so it does modify the list; and a partner turn whose translation carries
  two candidates leaves two suggestions, not three.
\<close>

theorem suggestions_counterexample:
  "translateContent goodWorld ''Gracias'' english spanish
     (userProfile (initialApp\<lparr>smartReplies := [''Over there.'', ''I do not know.'', ''Sorry.'']\<rparr>))
     (messages (initialApp\<lparr>smartReplies := [''Over there.'', ''I do not know.'', ''Sorry.'']\<rparr>))
     (imageFrame goodWorld Text) = Inr holaResponse
   \<and> smartReplies (processInput goodWorld ''Gracias'' english spanish User Text None False
        (initialApp\<lparr>smartReplies := [''Over there.'', ''I do not know.'', ''Sorry.'']\<rparr>)) = []
   \<and> translateContent shortList ''Donde esta la estacion?'' spanish english
        (userProfile initialApp) (messages initialApp) (imageFrame shortList Audio_live)
       = Inr twoSuggestions
   \<and> length (smartReplies (processInput shortList ''Donde esta la estacion?'' spanish english
        Partner Audio_live None False initialApp)) = 2"
  by (simp add: processInput_smartReplies translateContent_goodWorld translateContent_shortList
        twoSuggestions_def)

subsection \<open>A body that is not JSON\<close>

text \<open>
  Claim C5, as the code has it. When the gateway returns a body that is not empty and
  \<^verbatim>\<open>JSON.parse\<close> throws on it, \<^verbatim>\<open>translateContent\<close> does not raise: it returns the body
  without its braces, cut to 100 characters and followed by three dots, the emotion
  ``Neutral'' and the three fixed replies.
\<close>

theorem unparsable_body_falls_back:
  assumes "generateContent_translate w
             (translateRequest text sourceLang targetLang' profile history imageContext)
           = Returns (Some result)"
    and "result \<noteq> []"
    and "JSON_parse_translation w result = Throws"
  shows "\<exists>r. translateContent w text sourceLang targetLang' profile history imageContext = Inr r
           \<and> TranslationResponse.translatedText r =
               take 100 (filter (\<lambda>c. c \<noteq> CHR ''{'' \<and> c \<noteq> CHR ''}'') result) @ ''...''
           \<and> length (TranslationResponse.translatedText r) \<le> 103
           \<and> TranslationResponse.detectedEmotion r = Some ''Neutral''
           \<and> TranslationResponse.suggestedResponses r =
               [''Could you repeat that?'', ''I understand.'', ''Thank you.'']
           \<and> length (TranslationResponse.suggestedResponses r) = 3"
  using translateContent_fallback[OF assms] by (simp add: fallbackResponse_def)

theorem unparsable_body_falls_back_witness:
  "generateContent_translate brokenJson (translateRequest ''Hello'' english spanish None [] None)
     = Returns (Some ''{translatedText: Hol'')
   \<and> JSON_parse_translation brokenJson ''{translatedText: Hol'' = Throws
   \<and> translateContent brokenJson ''Hello'' english spanish None [] None
       = Inr \<lparr>TranslationResponse.translatedText = ''translatedText: Hol...'',
              TranslationResponse.suggestedResponses =
                [''Could you repeat that?'', ''I understand.'', ''Thank you.''],
              TranslationResponse.detectedEmotion = Some ''Neutral''\<rparr>"
proof -
  have h1: "generateContent_translate brokenJson
      (translateRequest ''Hello'' english spanish None [] None)
     = Returns (Some ''{translatedText: Hol'')"
    by (simp add: brokenJson_def goodWorld_def)
  have h2: "''{translatedText: Hol'' \<noteq> []" by simp
  have h3: "JSON_parse_translation brokenJson ''{translatedText: Hol'' = Throws"
    by (simp add: brokenJson_def goodWorld_def)
  show ?thesis
    using h1 h3 unparsable_body_falls_back[OF h1 h2 h3]
    by auto
qed

text \<open>
  Claim C5 as stated fails on the empty body: it is not parseable either, and
  \<^verbatim>\<open>translateContent\<close> raises ``No translation returned'' before it tries to parse.
\<close>

theorem empty_body_counterexample:
  "generateContent_translate emptyBody (translateRequest ''Hello'' english spanish None [] None)
     = Returns (Some [])
   \<and> JSON_parse_translation emptyBody [] = Throws
   \<and> translateContent emptyBody ''Hello'' english spanish None [] None
       = Inl NoTranslationReturned"
  by (simp add: translateContent_def emptyBody_def goodWorld_def)

subsection \<open>A recording without a transcript\<close>

text \<open>
  Claim C8. When a recording is stopped while the transcript is empty, the call that is
  scheduled carries the text ``(Audio Content)'', and the message it commits when it
  fires (the translation succeeding) has that placeholder as \<open>originalText\<close>, not the
  empty string.
\<close>

theorem recording_placeholder:
  assumes "mediaRecorderRef s" and "isMediaRecording s" and "interimText s = []"
    and "who = (case recordingWho s of None \<Rightarrow> User | Some x \<Rightarrow> x)"
    and "ty = (if commMode s = REC_VIDEO then Video_file else Audio_file)"
    and "translateContent w ''(Audio Content)'' (if who = User then langA s else langB s)
           (if who = User then langB s else langA s) (userProfile s) (messages s)
           (imageFrame w ty) = Inr tr"
  shows "(\<exists>mime src tgt. timers (stopMediaRecording s) =
            timers s @ [(500, SendRecording mime ''(Audio Content)'' src tgt who ty)])
       \<and> (\<exists>m. messages (fire w (length (timers s)) (stopMediaRecording s)) = messages s @ [m]
              \<and> originalText m = ''(Audio Content)'' \<and> originalText m \<noteq> [])"
proof -
  have t: "timers (stopMediaRecording s) =
             timers s @ [(500, SendRecording
                (if commMode s = REC_VIDEO then ''video/webm'' else ''audio/webm'')
                ''(Audio Content)'' (if who = User then langA s else langB s)
                (if who = User then langB s else langA s) who ty)]"
    using assms(1-5) by (simp add: stopMediaRecording_def Let_def js_or_def)
  have o: "userProfile (stopMediaRecording s) = userProfile s"
          "messages (stopMediaRecording s) = messages s"
    by (simp_all add: stopMediaRecording_def Let_def)
  have "messages (fire w (length (timers s)) (stopMediaRecording s)) =
          messages s @
          [newMessage w ''(Audio Content)'' (if who = User then langA s else langB s)
             (if who = User then langB s else langA s) who ty
             (Some \<lparr>parts = chunksRef s,
                    mimeType = (if commMode s = REC_VIDEO then ''video/webm'' else ''audio/webm'')\<rparr>)
             False tr
             (trySpeech w tr (if who = User then langB s else langA s))]"
    using assms(6) o
    by (simp add: fire_def t nth_append processInput_messages)
       (simp add: stopMediaRecording_def Let_def assms(1,2))
  then show ?thesis using t by (simp add: newMessage_def)
qed

theorem recording_placeholder_witness:
  "mediaRecorderRef recordingApp \<and> isMediaRecording recordingApp
   \<and> interimText recordingApp = []
   \<and> translateContent goodWorld ''(Audio Content)'' spanish english (userProfile recordingApp)
        (messages recordingApp) (imageFrame goodWorld Audio_file) = Inr holaResponse
   \<and> timers (stopMediaRecording recordingApp)
       = [(500, SendRecording ''audio/webm'' ''(Audio Content)'' spanish english Partner
                  Audio_file)]
   \<and> (\<exists>m. messages (fire goodWorld 0 (stopMediaRecording recordingApp)) = [m]
          \<and> originalText m = ''(Audio Content)'' \<and> sender m = Partner)"
proof -
  have h1: "mediaRecorderRef recordingApp" by (simp add: recordingApp_def)
  have h2: "isMediaRecording recordingApp" by (simp add: recordingApp_def)
  have h3: "interimText recordingApp = []" by (simp add: recordingApp_def initialApp_def)
  have h4: "Partner = (case recordingWho recordingApp of None \<Rightarrow> User | Some x \<Rightarrow> x)"
    by (simp add: recordingApp_def)
  have h5: "Audio_file = (if commMode recordingApp = REC_VIDEO then Video_file else Audio_file)"
    by (simp add: recordingApp_def)
  have h6: "translateContent goodWorld ''(Audio Content)''
           (if Partner = User then langA recordingApp else langB recordingApp)
           (if Partner = User then langB recordingApp else langA recordingApp)
           (userProfile recordingApp) (messages recordingApp)
           (imageFrame goodWorld Audio_file) = Inr holaResponse"
    by (rule translateContent_goodWorld)
  have t: "translateContent goodWorld ''(Audio Content)'' spanish english
        (userProfile recordingApp) (messages recordingApp) (imageFrame goodWorld Audio_file)
      = Inr holaResponse"
    by (rule translateContent_goodWorld)
  have m: "messages recordingApp = []" "timers recordingApp = []"
    by (simp_all add: recordingApp_def initialApp_def)
  have f: "messages (fire goodWorld 0 (stopMediaRecording recordingApp)) =
           [newMessage goodWorld ''(Audio Content)'' spanish english Partner Audio_file
              (Some \<lparr>parts = [[26, 69]], mimeType = ''audio/webm''\<rparr>) False holaResponse
              (Some [82, 73, 70, 70])]"
    by (simp add: fire_def stopMediaRecording_def Let_def js_or_def recordingApp_def
          initialApp_def processInput_messages translateContent_goodWorld trySpeech_goodWorld)
  show ?thesis
    using h1 h2 h3 t recording_placeholder[OF h1 h2 h3 h4 h5 h6]
    by (simp add: m f newMessage_def)
       (simp add: stopMediaRecording_def Let_def js_or_def recordingApp_def initialApp_def)
qed

subsection \<open>A stored profile of the legacy shape\<close>

text \<open>
  Claim C9. When the stored profile parses and its \<open>tone\<close> is a single string, the
  profile in memory after the load has the one-element list of that string as \<open>tone\<close>,
  and the other fields as stored.
\<close>

theorem legacy_tone_normalised:
  assumes "savedProfile = Some item" and "item \<noteq> []"
    and "JSON_parse item = Returns parsed"
    and "sp_tone parsed = ToneString t"
  shows "\<exists>p. userProfile (loadProfile JSON_parse savedProfile s) = Some p \<and> tone p = [t]
           \<and> name p = sp_name parsed \<and> primaryLanguage p = sp_primaryLanguage parsed
           \<and> conversationTypes p = sp_conversationTypes parsed \<and> bio p = sp_bio parsed"
  using assms
  by (simp add: loadProfile_def migrateTone_def Let_def split: option.split)

theorem legacy_tone_normalised_witness:
  "(\<lambda>item. Returns legacyProfile) ''{tone: Formal}'' = Returns legacyProfile
   \<and> sp_tone legacyProfile = ToneString ''Formal''
   \<and> (\<exists>p. userProfile (loadProfile (\<lambda>item. Returns legacyProfile) (Some ''{tone: Formal}'')
               initialApp) = Some p
          \<and> tone p = [''Formal''])
   \<and> langA (loadProfile (\<lambda>item. Returns legacyProfile) (Some ''{tone: Formal}'') initialApp)
       = spanish"
proof -
  have h1: "Some ''{tone: Formal}'' = Some ''{tone: Formal}''" by simp
  have h2: "''{tone: Formal}'' \<noteq> []" by simp
  have h3: "(\<lambda>item. Returns legacyProfile) ''{tone: Formal}'' = Returns legacyProfile" by simp
  have h4: "sp_tone legacyProfile = ToneString ''Formal''" by (simp add: legacyProfile_def)
  have l: "langA (loadProfile (\<lambda>item. Returns legacyProfile) (Some ''{tone: Formal}'')
             initialApp) = spanish"
    by (simp add: loadProfile_def Let_def legacyProfile_def SUPPORTED_LANGUAGES_def spanish_def)
  show ?thesis
    using h4 l legacy_tone_normalised[OF h1 h2 h3 h4, of initialApp]
    by auto
qed

subsection \<open>A partner turn answered by the avatar\<close>

text \<open>
  The partner asks for the station in a session with a profile and the responder
  switched on; the timer the invocation leaves behind fires. The history then holds the
  partner's message and, after it, the avatar's reply for the local user, flagged as an
  auto-reply and translated the other way.
\<close>

lemma station_scenario:
  "map (\<lambda>m. (sender m, originalText m, isAutoReply m, originalLang m, targetLang m))
     (messages (fire goodWorld 0
        (processInput goodWorld ''Where is the station?'' spanish english Partner Audio_live None
           False avatarApp)))
   = [(Partner, ''Where is the station?'', Some False, ''es-ES'', ''en-US''),
      (User, ''At the corner, two blocks north.'', Some True, ''en-US'', ''es-ES'')]"
proof -
  have t: "timers (processInput goodWorld ''Where is the station?'' spanish english Partner
             Audio_live None False avatarApp)
           = [(1000, CallProcessInput ''At the corner, two blocks north.'' english spanish User
                       Text None True)]"
    by (simp add: processInput_timers translateContent_goodWorld trySpeech_goodWorld
          audioPlays_goodWorld avatarLogic_def generateAvatarReply_goodWorld avatarApp_def
          initialApp_def)
  have m: "messages (processInput goodWorld ''Where is the station?'' spanish english Partner
             Audio_live None False avatarApp)
           = [newMessage goodWorld ''Where is the station?'' spanish english Partner Audio_live
                None False holaResponse (Some [82, 73, 70, 70])]"
    by (simp add: processInput_messages translateContent_goodWorld trySpeech_goodWorld
          avatarApp_def initialApp_def)
  have ma: "messages avatarApp = []"
    by (simp add: avatarApp_def initialApp_def)
  have f: "messages (fire goodWorld 0
             (processInput goodWorld ''Where is the station?'' spanish english Partner Audio_live
                None False avatarApp))
           = [newMessage goodWorld ''Where is the station?'' spanish english Partner Audio_live
                None False holaResponse (Some [82, 73, 70, 70]),
              newMessage goodWorld ''At the corner, two blocks north.'' english spanish User Text
                None True holaResponse (Some [82, 73, 70, 70])]"
    by (simp add: fire_def t m ma processInput_messages translateContent_goodWorld
          trySpeech_goodWorld)
  show ?thesis
    unfolding f by (simp add: newMessage_def english_def spanish_def)
qed

end
